theory Spec2Isabelle
  imports Main "HOL-Library.AList"
begin

unbundle bit_operations_syntax

section \<open>Handles and protocol constants\<close>

text \<open>
  Windows, atoms and key symbols are opaque resource identifiers. The numeric constants
  are the ones of the X11 core protocol that \<open>window_manager.py\<close> reads from
  \<open>Xlib.X\<close> and \<open>Xlib.XK\<close>.
\<close>

type_synonym window = nat
type_synonym atom = nat
type_synonym keysym = nat

definition SubstructureRedirectMask :: int where "SubstructureRedirectMask = 1048576"
definition SubstructureNotifyMask :: int where "SubstructureNotifyMask = 524288"
definition Mod1Mask :: int where "Mod1Mask = 8"
definition Button1Mask :: int where "Button1Mask = 256"
definition Button3Mask :: int where "Button3Mask = 1024"
definition Above :: int where "Above = 0"
definition IsViewable :: int where "IsViewable = 2"
definition XK_F4 :: keysym where "XK_F4 = 65473"
definition XK_Tab :: keysym where "XK_Tab = 65289"

text \<open>Visual properties of a frame, the local constants of \<open>Frame\<close>.\<close>

definition BORDER_WIDTH :: int where "BORDER_WIDTH = 3"
definition BORDER_COLOR :: int where "BORDER_COLOR = 16711680"
definition BG_COLOR :: int where "BG_COLOR = 255"

section \<open>The display: server-side state and requests\<close>

record geometry =
  geo_x :: int
  geo_y :: int
  geo_width :: int
  geo_height :: int
  geo_border_width :: int

text \<open>
  The keyword arguments of \<open>Window.configure\<close>: a field that is not passed is
  \<open>None\<close> and leaves the window's value alone.
\<close>

record configure_values =
  cfg_x :: "int option"
  cfg_y :: "int option"
  cfg_width :: "int option"
  cfg_height :: "int option"
  cfg_border_width :: "int option"
  cfg_sibling :: "window option"
  cfg_stack_mode :: "int option"

definition no_values :: configure_values where
  "no_values = \<lparr>cfg_x = None, cfg_y = None, cfg_width = None, cfg_height = None,
     cfg_border_width = None, cfg_sibling = None, cfg_stack_mode = None\<rparr>"

text \<open>Every call the manager makes on the display or on a window, in the order made.\<close>

datatype xrequest =
    CreateSimpleWindow window window int int int int int int int
  | ChangeAttributes window int
  | AddToSaveSet window
  | RemoveFromSaveSet window
  | ReparentWindow window window int int
  | MapWindow window
  | UnmapWindow window
  | DestroyWindow window
  | ConfigureWindow window configure_values
  | GrabButton window int int
  | GrabKey window int int
  | SetInputFocus window
  | SendEvent window atom atom
  | KillClient window

record xwindow =
  win_geometry :: geometry
  win_parent :: window
  win_mapped :: bool
  win_alive :: bool
  win_override_redirect :: bool
  win_map_state :: int
  win_event_mask :: int
  win_protocols :: "atom list"

record xdisplay =
  windows :: "window \<Rightarrow> xwindow"
  save_set :: "window set"
  input_focus :: window
  keycodes :: "keysym \<Rightarrow> int"
  next_id :: window
  requests :: "xrequest list"

definition configure_geometry :: "configure_values \<Rightarrow> geometry \<Rightarrow> geometry" where
  "configure_geometry c g =
     \<lparr>geo_x = (case cfg_x c of None \<Rightarrow> geo_x g | Some v \<Rightarrow> v),
      geo_y = (case cfg_y c of None \<Rightarrow> geo_y g | Some v \<Rightarrow> v),
      geo_width = (case cfg_width c of None \<Rightarrow> geo_width g | Some v \<Rightarrow> v),
      geo_height = (case cfg_height c of None \<Rightarrow> geo_height g | Some v \<Rightarrow> v),
      geo_border_width = (case cfg_border_width c of None \<Rightarrow> geo_border_width g | Some v \<Rightarrow> v)\<rparr>"

definition upd_window :: "window \<Rightarrow> (xwindow \<Rightarrow> xwindow) \<Rightarrow> xdisplay \<Rightarrow> xdisplay" where
  "upd_window w f d = d\<lparr>windows := (windows d)(w := f (windows d w))\<rparr>"

text \<open>
  What a request does to the server-side state that the manager later reads or that the
  specification speaks about: geometry, parent, mapping, existence, the save-set and the
  input focus. Stacking order, grabs and messages to clients are visible in the request
  log only. Override-redirect and the map state are what the server reports for a window;
  a created window starts unmapped and without override-redirect, and the requests do not
  change them otherwise. Handles are taken to be valid: protocol errors
  are asynchronous and only logged by \<open>OnXError\<close>.
\<close>

fun effect :: "xrequest \<Rightarrow> xdisplay \<Rightarrow> xdisplay" where
  "effect (CreateSimpleWindow new p x y w h bw bc bg) d =
     upd_window new (\<lambda>_. \<lparr>win_geometry =
         \<lparr>geo_x = x, geo_y = y, geo_width = w, geo_height = h, geo_border_width = bw\<rparr>,
       win_parent = p, win_mapped = False, win_alive = True, win_override_redirect = False,
       win_map_state = 0, win_event_mask = 0, win_protocols = []\<rparr>) (d\<lparr>next_id := Suc new\<rparr>)"
| "effect (ChangeAttributes w m) d = upd_window w (\<lambda>a. a\<lparr>win_event_mask := m\<rparr>) d"
| "effect (AddToSaveSet w) d = d\<lparr>save_set := insert w (save_set d)\<rparr>"
| "effect (RemoveFromSaveSet w) d = d\<lparr>save_set := save_set d - {w}\<rparr>"
| "effect (ReparentWindow w p x y) d =
     upd_window w (\<lambda>a. a\<lparr>win_parent := p,
       win_geometry := (win_geometry a)\<lparr>geo_x := x, geo_y := y\<rparr>\<rparr>) d"
| "effect (MapWindow w) d = upd_window w (\<lambda>a. a\<lparr>win_mapped := True\<rparr>) d"
| "effect (UnmapWindow w) d = upd_window w (\<lambda>a. a\<lparr>win_mapped := False\<rparr>) d"
| "effect (DestroyWindow w) d = upd_window w (\<lambda>a. a\<lparr>win_alive := False, win_mapped := False\<rparr>) d"
| "effect (ConfigureWindow w c) d =
     upd_window w (\<lambda>a. a\<lparr>win_geometry := configure_geometry c (win_geometry a)\<rparr>) d"
| "effect (GrabButton w b m) d = d"
| "effect (GrabKey w k m) d = d"
| "effect (SetInputFocus w) d = d\<lparr>input_focus := w\<rparr>"
| "effect (SendEvent w t v) d = d"
| "effect (KillClient w) d = d"

definition request :: "xrequest \<Rightarrow> xdisplay \<Rightarrow> xdisplay" where
  "request r d = (effect r d)\<lparr>requests := requests d @ [r]\<rparr>"

record window_attributes =
  attr_x :: int
  attr_y :: int
  attr_width :: int
  attr_height :: int
  attr_override_redirect :: bool
  attr_map_state :: int

definition get_attributes :: "xdisplay \<Rightarrow> window \<Rightarrow> window_attributes" where
  "get_attributes d w =
     \<lparr>attr_x = geo_x (win_geometry (windows d w)), attr_y = geo_y (win_geometry (windows d w)),
      attr_width = geo_width (win_geometry (windows d w)),
      attr_height = geo_height (win_geometry (windows d w)),
      attr_override_redirect = win_override_redirect (windows d w),
      attr_map_state = win_map_state (windows d w)\<rparr>"

definition get_geometry :: "xdisplay \<Rightarrow> window \<Rightarrow> geometry" where
  "get_geometry d w = win_geometry (windows d w)"

definition get_wm_protocols :: "xdisplay \<Rightarrow> window \<Rightarrow> atom list" where
  "get_wm_protocols d w = win_protocols (windows d w)"

definition keysym_to_keycode :: "xdisplay \<Rightarrow> keysym \<Rightarrow> int" where
  "keysym_to_keycode d k = keycodes d k"

section \<open>The window manager\<close>

text \<open>
  \<open>self.clients\<close> is a Python \<open>dict\<close>: an association list in insertion order
  (\<open>AList.update\<close> replaces in place or appends, \<open>AList.delete\<close> removes the key).
  The three \<open>drag_start\<close> attributes are not set by \<open>__init__\<close>: they are
  \<open>None\<close> until \<open>OnButtonPress\<close> assigns them, and reading one before that raises
  \<open>AttributeError\<close>. \<open>wm_detected_mutex\<close> is \<open>True\<close> while the lock is held.
\<close>

datatype error = AttributeError | StopIteration | AssertionError | KeyError | Blocked

record wm =
  display :: xdisplay
  root :: window
  WM_PROTOCOLS :: atom
  WM_DELETE_WINDOW :: atom
  clients :: "(window \<times> window) list"
  drag_start_pos :: "(int \<times> int) option"
  drag_start_frame_pos :: "(int \<times> int) option"
  drag_start_frame_size :: "(int \<times> int) option"
  wm_detected :: bool
  wm_detected_mutex :: bool

definition Contains :: "wm \<Rightarrow> window \<Rightarrow> bool" where
  "Contains s w = (map_of (clients s) w \<noteq> None)"

definition call :: "xrequest \<Rightarrow> wm \<Rightarrow> wm" where
  "call r s = s\<lparr>display := request r (display s)\<rparr>"

definition Frame :: "wm \<Rightarrow> window \<Rightarrow> bool \<Rightarrow> wm" where
  "Frame s w was_created_before_window_manager =
     (if Contains s w then s
      else let x_window_attrs = get_attributes (display s) w in
        if was_created_before_window_manager \<and>
           (attr_override_redirect x_window_attrs \<or> attr_map_state x_window_attrs \<noteq> IsViewable)
        then s
        else let frame = next_id (display s);
                 s1 = call (CreateSimpleWindow frame (root s)
                        (attr_x x_window_attrs) (attr_y x_window_attrs)
                        (attr_width x_window_attrs) (attr_height x_window_attrs)
                        BORDER_WIDTH BORDER_COLOR BG_COLOR) s;
                 s2 = call (ChangeAttributes frame
                        (SubstructureRedirectMask OR SubstructureNotifyMask)) s1;
                 s3 = call (AddToSaveSet w) s2;
                 s4 = call (ReparentWindow w frame 0 0) s3;
                 s5 = call (MapWindow frame) s4;
                 s6 = s5\<lparr>clients := AList.update w frame (clients s5)\<rparr>;
                 s7 = call (GrabButton w 1 Mod1Mask) s6;
                 s8 = call (GrabButton w 3 Mod1Mask) s7;
                 s9 = call (GrabKey w (keysym_to_keycode (display s8) XK_F4) Mod1Mask) s8
             in call (GrabKey w (keysym_to_keycode (display s9) XK_Tab) Mod1Mask) s9)"

definition Unframe :: "wm \<Rightarrow> window \<Rightarrow> wm" where
  "Unframe s w =
     (case map_of (clients s) w of
        None \<Rightarrow> s
      | Some frame \<Rightarrow>
          let s1 = call (UnmapWindow frame) s;
              s2 = call (ReparentWindow w (root s1) 0 0) s1;
              s3 = call (RemoveFromSaveSet w) s2;
              s4 = call (DestroyWindow frame) s3
          in s4\<lparr>clients := AList.delete w (clients s4)\<rparr>)"

section \<open>Events\<close>

text \<open>
  Key, button and motion events share one layout (\<open>ev_keycode\<close> is the button of a
  button event). The other kinds carry the fields the handlers read; an event object has
  no attribute outside its kind's fields, and reading one raises \<open>AttributeError\<close>.
\<close>

record pointer_event =
  ev_window :: window
  ev_x_root :: int
  ev_y_root :: int
  ev_state :: int
  ev_keycode :: int

record configure_request =
  req_window :: window
  req_x :: int
  req_y :: int
  req_width :: int
  req_height :: int
  req_border_width :: int
  req_above :: window
  req_detail :: int
  req_value_mask :: int

datatype xevent =
    KeyPress pointer_event
  | KeyRelease pointer_event
  | ButtonPress pointer_event
  | ButtonRelease pointer_event
  | MotionNotify pointer_event
  | CreateNotify window
  | DestroyNotify window
  | ReparentNotify window
  | MapNotify window
  | UnmapNotify window window
  | ConfigureNotify window
  | MapRequest window
  | ConfigureRequest configure_request
  | OtherEvent nat "window option"

fun event_window :: "xevent \<Rightarrow> window option" where
  "event_window (KeyPress p) = Some (ev_window p)"
| "event_window (KeyRelease p) = Some (ev_window p)"
| "event_window (ButtonPress p) = Some (ev_window p)"
| "event_window (ButtonRelease p) = Some (ev_window p)"
| "event_window (MotionNotify p) = Some (ev_window p)"
| "event_window (CreateNotify w) = Some w"
| "event_window (DestroyNotify w) = Some w"
| "event_window (ReparentNotify w) = Some w"
| "event_window (MapNotify w) = Some w"
| "event_window (UnmapNotify w ev) = Some w"
| "event_window (ConfigureNotify w) = Some w"
| "event_window (MapRequest w) = Some w"
| "event_window (ConfigureRequest r) = Some (req_window r)"
| "event_window (OtherEvent n w) = w"

fun event_pointer :: "xevent \<Rightarrow> pointer_event option" where
  "event_pointer (KeyPress p) = Some p"
| "event_pointer (KeyRelease p) = Some p"
| "event_pointer (ButtonPress p) = Some p"
| "event_pointer (ButtonRelease p) = Some p"
| "event_pointer (MotionNotify p) = Some p"
| "event_pointer e = None"

fun is_motion :: "xevent \<Rightarrow> bool" where
  "is_motion (MotionNotify p) = True"
| "is_motion e = False"

record xerror =
  error_code :: int
  request_code :: int
  resourceid :: nat

section \<open>Event handlers\<close>

definition OnUnmapNotify :: "wm \<Rightarrow> window \<Rightarrow> window \<Rightarrow> wm" where
  "OnUnmapNotify s e_window e_event =
     (if \<not> Contains s e_window then s
      else if e_event = root s then s
      else Unframe s e_window)"

definition OnMapRequest :: "wm \<Rightarrow> window \<Rightarrow> wm" where
  "OnMapRequest s e_window = call (MapWindow e_window) (Frame s e_window False)"

definition changes :: "configure_request \<Rightarrow> configure_values" where
  "changes e = \<lparr>cfg_x = Some (req_x e), cfg_y = Some (req_y e),
     cfg_width = Some (req_width e), cfg_height = Some (req_height e),
     cfg_border_width = Some (req_border_width e), cfg_sibling = Some (req_above e),
     cfg_stack_mode = Some (req_detail e)\<rparr>"

definition OnConfigureRequest :: "wm \<Rightarrow> configure_request \<Rightarrow> wm" where
  "OnConfigureRequest s e =
     (let s1 = (case map_of (clients s) (req_window e) of
                  Some frame \<Rightarrow> call (ConfigureWindow frame (changes e)) s
                | None \<Rightarrow> s)
      in call (ConfigureWindow (req_window e) (changes e)) s1)"

definition OnButtonPress :: "wm \<Rightarrow> pointer_event \<Rightarrow> wm" where
  "OnButtonPress s e =
     (case map_of (clients s) (ev_window e) of
        None \<Rightarrow> s
      | Some frame \<Rightarrow>
          let s1 = s\<lparr>drag_start_pos := Some (ev_x_root e, ev_y_root e)\<rparr>;
              g = get_geometry (display s1) frame;
              s2 = s1\<lparr>drag_start_frame_pos := Some (geo_x g, geo_y g)\<rparr>;
              s3 = s2\<lparr>drag_start_frame_size := Some (geo_width g, geo_height g)\<rparr>
          in call (ConfigureWindow frame (no_values\<lparr>cfg_stack_mode := Some Above\<rparr>)) s3)"

definition OnButtonRelease :: "wm \<Rightarrow> pointer_event \<Rightarrow> wm" where
  "OnButtonRelease s e = s"

text \<open>
  \<open>OnMotionNotify\<close> is written over any event object, since the dispatcher can hand it
  an event of another kind (see \<open>dispatch\<close>).
\<close>

definition OnMotionNotify :: "wm \<Rightarrow> xevent \<Rightarrow> error + wm" where
  "OnMotionNotify s e =
     (case event_window e of
        None \<Rightarrow> Inl AttributeError
      | Some e_window \<Rightarrow>
     (case map_of (clients s) e_window of
        None \<Rightarrow> Inr s
      | Some frame \<Rightarrow>
     (case event_pointer e of
        None \<Rightarrow> Inl AttributeError
      | Some p \<Rightarrow>
     (case drag_start_pos s of
        None \<Rightarrow> Inl AttributeError
      | Some start \<Rightarrow>
          let delta = (ev_x_root p - fst start, ev_y_root p - snd start) in
          if ev_state p AND Button1Mask \<noteq> 0 then
            (case drag_start_frame_pos s of
               None \<Rightarrow> Inl AttributeError
             | Some fpos \<Rightarrow>
                 let dest_frame_pos = (fst fpos + fst delta, snd fpos + snd delta)
                 in Inr (call (ConfigureWindow frame
                      (no_values\<lparr>cfg_x := Some (fst dest_frame_pos),
                         cfg_y := Some (snd dest_frame_pos)\<rparr>)) s))
          else if ev_state p AND Button3Mask \<noteq> 0 then
            (case drag_start_frame_size s of
               None \<Rightarrow> Inl AttributeError
             | Some fsize \<Rightarrow>
                 let size_delta = (max (fst delta) (- fst fsize), max (snd delta) (- snd fsize));
                     dest_frame_size = (fst fsize + fst size_delta, snd fsize + snd size_delta);
                     s1 = call (ConfigureWindow frame
                            (no_values\<lparr>cfg_width := Some (fst dest_frame_size),
                               cfg_height := Some (snd dest_frame_size)\<rparr>)) s
                 in Inr (call (ConfigureWindow e_window
                      (no_values\<lparr>cfg_width := Some (fst dest_frame_size),
                         cfg_height := Some (snd dest_frame_size)\<rparr>)) s1))
          else Inr s))))"

text \<open>
  The iterator of alt + tab: \<open>seek w ks\<close> advances past the first \<open>w\<close> and gives what
  is left of the iterator, \<open>None\<close> when the keys run out (\<open>StopIteration\<close> outside
  the \<open>try\<close>).
\<close>

fun seek :: "window \<Rightarrow> window list \<Rightarrow> window list option" where
  "seek w [] = None"
| "seek w (k # ks) = (if k \<noteq> w then seek w ks else Some ks)"

definition next_window :: "window list \<Rightarrow> window \<Rightarrow> error + window" where
  "next_window keys w =
     (case seek w keys of
        None \<Rightarrow> Inl StopIteration
      | Some [] \<Rightarrow> (case keys of [] \<Rightarrow> Inl StopIteration | k # ks \<Rightarrow> Inr k)
      | Some (n # rest) \<Rightarrow> Inr n)"

definition OnKeyPress :: "wm \<Rightarrow> pointer_event \<Rightarrow> error + wm" where
  "OnKeyPress s e =
     (if ev_state e AND Mod1Mask \<noteq> 0 \<and> ev_keycode e = keysym_to_keycode (display s) XK_F4 then
        let supported_protocols = get_wm_protocols (display s) (ev_window e) in
        if WM_DELETE_WINDOW s \<in> set supported_protocols
        then Inr (call (SendEvent (ev_window e) (WM_PROTOCOLS s) (WM_DELETE_WINDOW s)) s)
        else Inr (call (KillClient (ev_window e)) s)
      else if ev_state e AND Mod1Mask \<noteq> 0 \<and>
              ev_keycode e = keysym_to_keycode (display s) XK_Tab then
        (case next_window (map fst (clients s)) (ev_window e) of
           Inl err \<Rightarrow> Inl err
         | Inr nw \<Rightarrow>
             (case map_of (clients s) nw of
                None \<Rightarrow> Inl KeyError
              | Some next_frame \<Rightarrow>
                  let s1 = call (ConfigureWindow next_frame
                             (no_values\<lparr>cfg_stack_mode := Some Above\<rparr>)) s
                  in Inr (call (SetInputFocus nw) s1)))
      else Inr s)"

definition OnXError :: "wm \<Rightarrow> xerror \<Rightarrow> wm \<times> int" where
  "OnXError s e = (s, 0)"


section \<open>The dispatcher\<close>

text \<open>
  The loop body of \<open>Run\<close> on the event \<open>e\<close> just read and the events \<open>q\<close> already
  queued behind it. \<open>drain\<close> is the inner loop of the \<open>MotionNotify\<close> branch: while an
  event is pending it reads the next one into \<open>e\<close>, and stops after reading one that is
  not a \<open>MotionNotify\<close> (the second disjunct of the source, \<open>e.window != e.window\<close>,
  is never true).
\<close>

fun drain :: "xevent \<Rightarrow> xevent list \<Rightarrow> xevent \<times> xevent list" where
  "drain e [] = (e, [])"
| "drain e (e' # q) = (if \<not> is_motion e' \<or> event_window e' \<noteq> event_window e' then (e', q)
                        else drain e' q)"

definition dispatch :: "wm \<Rightarrow> xevent \<Rightarrow> xevent list \<Rightarrow> error + wm \<times> xevent list" where
  "dispatch s e q =
     (case e of
        CreateNotify w \<Rightarrow> Inr (s, q)
      | DestroyNotify w \<Rightarrow> Inr (s, q)
      | ReparentNotify w \<Rightarrow> Inr (s, q)
      | MapNotify w \<Rightarrow> Inr (s, q)
      | UnmapNotify w ev \<Rightarrow> Inr (OnUnmapNotify s w ev, q)
      | ConfigureNotify w \<Rightarrow> Inr (s, q)
      | MapRequest w \<Rightarrow> Inr (OnMapRequest s w, q)
      | ConfigureRequest r \<Rightarrow> Inr (OnConfigureRequest s r, q)
      | ButtonPress p \<Rightarrow> Inr (OnButtonPress s p, q)
      | ButtonRelease p \<Rightarrow> Inr (OnButtonRelease s p, q)
      | MotionNotify p \<Rightarrow>
          (case drain e q of (e', q') \<Rightarrow>
             (case OnMotionNotify s e' of Inl err \<Rightarrow> Inl err | Inr s' \<Rightarrow> Inr (s', q')))
      | KeyPress p \<Rightarrow> (case OnKeyPress s p of Inl err \<Rightarrow> Inl err | Inr s' \<Rightarrow> Inr (s', q))
      | KeyRelease p \<Rightarrow> Inr (s, q)
      | OtherEvent n w \<Rightarrow> Inr (s, q))"

section \<open>Derived notions and a concrete session\<close>

text \<open>
  \<open>init\<close> is \<open>__init__\<close>: the display, its root window, the two interned atoms and an
  empty registry.
\<close>

definition init :: "xdisplay \<Rightarrow> window \<Rightarrow> atom \<Rightarrow> atom \<Rightarrow> wm" where
  "init d r a b = \<lparr>display = d, root = r, WM_PROTOCOLS = a, WM_DELETE_WINDOW = b, clients = [],
     drag_start_pos = None, drag_start_frame_pos = None, drag_start_frame_size = None,
     wm_detected = False, wm_detected_mutex = False\<rparr>"

text \<open>The guard of step 2 of \<open>Frame\<close>, on what the server reports for the window.\<close>

definition skipped :: "wm \<Rightarrow> window \<Rightarrow> bool \<Rightarrow> bool" where
  "skipped s w pre =
     (pre \<and> (win_override_redirect (windows (display s) w) \<or>
             win_map_state (windows (display s) w) \<noteq> IsViewable))"

text \<open>The calls of steps 3 to 9 of \<open>Frame\<close>, in order.\<close>

definition framing_requests :: "wm \<Rightarrow> window \<Rightarrow> xrequest list" where
  "framing_requests s w =
     [CreateSimpleWindow (next_id (display s)) (root s)
        (geo_x (win_geometry (windows (display s) w))) (geo_y (win_geometry (windows (display s) w)))
        (geo_width (win_geometry (windows (display s) w)))
        (geo_height (win_geometry (windows (display s) w)))
        BORDER_WIDTH BORDER_COLOR BG_COLOR,
      ChangeAttributes (next_id (display s)) (SubstructureRedirectMask OR SubstructureNotifyMask),
      AddToSaveSet w,
      ReparentWindow w (next_id (display s)) 0 0,
      MapWindow (next_id (display s)),
      GrabButton w 1 Mod1Mask,
      GrabButton w 3 Mod1Mask,
      GrabKey w (keycodes (display s) XK_F4) Mod1Mask,
      GrabKey w (keycodes (display s) XK_Tab) Mod1Mask]"

text \<open>
  A display for concrete runs: root window 1, every window at (10, 10) with size 100 x 50,
  window 7 with override-redirect set, window 8 unmapped, fresh identifiers from 100.
\<close>

definition example_display :: xdisplay where
  "example_display =
     \<lparr>windows = (\<lambda>w. \<lparr>win_geometry =
          \<lparr>geo_x = 10, geo_y = 10, geo_width = 100, geo_height = 50, geo_border_width = 0\<rparr>,
        win_parent = 1, win_mapped = True, win_alive = True,
        win_override_redirect = (w = 7), win_map_state = (if w = 8 then 0 else 2),
        win_event_mask = 0, win_protocols = []\<rparr>),
      save_set = {}, input_focus = 1,
      keycodes = (\<lambda>k. if k = XK_F4 then 70 else if k = XK_Tab then 23 else 0),
      next_id = 100, requests = []\<rparr>"

definition example_wm :: wm where
  "example_wm = init example_display 1 200 201"

text \<open>
  The lifecycle calls of the framing engine, and a run of them from a state.
\<close>

datatype lifecycle = FrameCall window bool | UnframeCall window

fun lifecycle_call :: "wm \<Rightarrow> lifecycle \<Rightarrow> wm" where
  "lifecycle_call s (FrameCall w pre) = Frame s w pre"
| "lifecycle_call s (UnframeCall w) = Unframe s w"

definition run_lifecycle :: "wm \<Rightarrow> lifecycle list \<Rightarrow> wm" where
  "run_lifecycle s ops = foldl lifecycle_call s ops"




text \<open>
  Two framed clients, 5 and 6 (frames 100 and 101), and a drag started on client 5 with
  the pointer at the root position (0, 0).
\<close>

definition example_framed :: wm where
  "example_framed = Frame (Frame example_wm 5 False) 6 False"

definition example_press :: pointer_event where
  "example_press = \<lparr>ev_window = 5, ev_x_root = 0, ev_y_root = 0, ev_state = 8, ev_keycode = 1\<rparr>"

definition example_dragging :: wm where
  "example_dragging = OnButtonPress example_framed example_press"

text \<open>
  Pointer motions with alt + button 1 held (pointer at (30, 5)) and with alt + button 3 held
  (pointer at (-200, 20)), and a configure request for client 5 whose value mask names the
  border width only.
\<close>

definition example_move :: "window \<Rightarrow> pointer_event" where
  "example_move w = \<lparr>ev_window = w, ev_x_root = 30, ev_y_root = 5, ev_state = 264, ev_keycode = 0\<rparr>"




definition example_tab :: "window \<Rightarrow> pointer_event" where
  "example_tab w = \<lparr>ev_window = w, ev_x_root = 0, ev_y_root = 0, ev_state = 8, ev_keycode = 23\<rparr>"

section \<open>Basic facts\<close>

lemma call_fields [simp]:
  "clients (call r s) = clients s" "root (call r s) = root s"
  "drag_start_pos (call r s) = drag_start_pos s"
  "drag_start_frame_pos (call r s) = drag_start_frame_pos s"
  "drag_start_frame_size (call r s) = drag_start_frame_size s"
  "wm_detected (call r s) = wm_detected s" "wm_detected_mutex (call r s) = wm_detected_mutex s"
  "WM_PROTOCOLS (call r s) = WM_PROTOCOLS s" "WM_DELETE_WINDOW (call r s) = WM_DELETE_WINDOW s"
  "display (call r s) = request r (display s)"
  by (simp_all add: call_def)

lemma Contains_call [simp]: "Contains (call r s) w = Contains s w"
  by (simp add: Contains_def)

lemma keycodes_request [simp]: "keycodes (request r d) = keycodes d"
  by (cases r) (simp_all add: request_def upd_window_def)

lemma requests_request [simp]: "requests (request r d) = requests d @ [r]"
  by (simp add: request_def)


lemma Frame_skip: "Contains s w \<or> skipped s w pre \<Longrightarrow> Frame s w pre = s"
  by (auto simp: Frame_def skipped_def get_attributes_def Let_def)

lemma Frame_frames:
  assumes "\<not> Contains s w" "\<not> skipped s w pre"
  shows "Frame s w pre =
     (foldl (\<lambda>t r. call r t) s (framing_requests s w))
       \<lparr>clients := AList.update w (next_id (display s)) (clients s)\<rparr>"
  using assms
  by (auto simp: Frame_def skipped_def get_attributes_def Let_def framing_requests_def
      keysym_to_keycode_def call_def)


lemma Contains_Frame:
  "Contains (Frame s w pre) c = (Contains s c \<or> (w = c \<and> \<not> skipped s w pre))"
proof (cases "Contains s w \<or> skipped s w pre")
  case True
  then show ?thesis by (auto simp: Frame_skip)
next
  case False
  then show ?thesis
    by (auto simp: Frame_frames Contains_def update_conv')
qed


lemma root_Frame [simp]: "root (Frame s w pre) = root s"
  by (cases "Contains s w \<or> skipped s w pre")
     (auto simp: Frame_skip Frame_frames framing_requests_def)


lemma Unframe_changes: "Contains s w \<Longrightarrow> Unframe s w \<noteq> s"
proof -
  assume "Contains s w"
  then obtain f where "map_of (clients s) w = Some f" by (auto simp: Contains_def)
  then have "length (requests (display (Unframe s w))) = length (requests (display s)) + 4"
    by (simp add: Unframe_def Let_def)
  then show ?thesis by auto
qed

section \<open>Claims\<close>

text \<open>
  C3. An \<open>UnmapNotify\<close> whose window is not a registry key changes nothing; one whose
  window is a registry key but whose reported parent (\<open>e.event\<close>) is the root changes
  nothing either; only for a registry key with another parent does the handler run
  \<open>Unframe\<close> on the window, which then does change the state.
\<close>

theorem OnUnmapNotify_ignores_or_unframes:
  "(\<not> Contains s w \<longrightarrow> OnUnmapNotify s w ev = s) \<and>
   (Contains s w \<and> ev = root s \<longrightarrow> OnUnmapNotify s w ev = s) \<and>
   (Contains s w \<and> ev \<noteq> root s \<longrightarrow>
      OnUnmapNotify s w ev = Unframe s w \<and> Unframe s w \<noteq> s) \<and>
   dispatch s (UnmapNotify w ev) q = Inr (OnUnmapNotify s w ev, q)"
  by (simp add: OnUnmapNotify_def dispatch_def Unframe_changes)

theorem OnUnmapNotify_ignores_or_unframes_witness:
  "OnUnmapNotify example_wm 5 100 = example_wm \<and>
   OnUnmapNotify (Frame example_wm 5 False) 5 1 = Frame example_wm 5 False \<and>
   OnUnmapNotify (Frame example_wm 5 False) 5 100 = Unframe (Frame example_wm 5 False) 5 \<and>
   Unframe (Frame example_wm 5 False) 5 \<noteq> Frame example_wm 5 False"
  using OnUnmapNotify_ignores_or_unframes [of example_wm 5 100]
    OnUnmapNotify_ignores_or_unframes [of "Frame example_wm 5 False" 5 1]
    OnUnmapNotify_ignores_or_unframes [of "Frame example_wm 5 False" 5 100]
  by (simp add: Contains_Frame skipped_def) (simp add: Contains_def example_wm_def init_def)



lemma update_absent: "k \<notin> fst ` set al \<Longrightarrow> AList.update k v al = al @ [(k, v)]"
  by (induction al) auto

lemma Frame_clients:
  assumes "\<not> Contains s w" "\<not> skipped s w pre"
  shows "clients (Frame s w pre) = clients s @ [(w, next_id (display s))]"
proof -
  from assms(1) have "w \<notin> fst ` set (clients s)"
    by (simp add: Contains_def map_of_eq_None_iff)
  then show ?thesis using assms by (simp add: Frame_frames update_absent)
qed




lemma example_facts:
  "clients example_wm = []" "root example_wm = 1" "next_id (display example_wm) = 100"
  "\<not> Contains example_wm w"
  "win_override_redirect (windows (display example_wm) w) = (w = 7)"
  "win_map_state (windows (display example_wm) w) = (if w = 8 then 0 else 2)"
  "requests (display example_wm) = []"
  by (simp_all add: example_wm_def init_def example_display_def Contains_def)



lemma run_lifecycle_simps [simp]:
  "run_lifecycle s [] = s"
  "run_lifecycle s (a # ops) = run_lifecycle (lifecycle_call s a) ops"
  by (simp_all add: run_lifecycle_def)









lemma Frame_frame_geometry:
  assumes "\<not> Contains s w" "\<not> skipped s w pre" "next_id (display s) \<noteq> w"
  shows "get_geometry (display (Frame s w pre)) (next_id (display s)) =
     \<lparr>geo_x = geo_x (win_geometry (windows (display s) w)),
      geo_y = geo_y (win_geometry (windows (display s) w)),
      geo_width = geo_width (win_geometry (windows (display s) w)),
      geo_height = geo_height (win_geometry (windows (display s) w)),
      geo_border_width = BORDER_WIDTH\<rparr>"
  using assms
  by (simp add: Frame_frames framing_requests_def request_def upd_window_def get_geometry_def)

lemma Frame_other_window:
  assumes "\<not> Contains s w" "\<not> skipped s w pre" "v \<noteq> w" "v \<noteq> next_id (display s)"
  shows "windows (display (Frame s w pre)) v = windows (display s) v"
  using assms
  by (simp add: Frame_frames framing_requests_def request_def upd_window_def)

lemma Frame_next_id:
  assumes "\<not> Contains s w" "\<not> skipped s w pre"
  shows "next_id (display (Frame s w pre)) = Suc (next_id (display s))"
  using assms
  by (simp add: Frame_frames framing_requests_def request_def upd_window_def)

lemma Frame_keeps [simp]:
  "drag_start_pos (Frame s w pre) = drag_start_pos s"
  "drag_start_frame_pos (Frame s w pre) = drag_start_frame_pos s"
  "drag_start_frame_size (Frame s w pre) = drag_start_frame_size s"
  "keycodes (display (Frame s w pre)) = keycodes (display s)"
  by (cases "Contains s w \<or> skipped s w pre";
      simp add: Frame_skip Frame_frames framing_requests_def)+

lemma example_one_facts:
  "clients (Frame example_wm 5 False) = [(5, 100)]"
  "next_id (display (Frame example_wm 5 False)) = 101"
  "\<not> Contains (Frame example_wm 5 False) 6"
  "windows (display (Frame example_wm 5 False)) 6 = windows (display example_wm) 6"
  "get_geometry (display (Frame example_wm 5 False)) 100 =
     \<lparr>geo_x = 10, geo_y = 10, geo_width = 100, geo_height = 50, geo_border_width = 3\<rparr>"
proof -
  have nc: "\<not> Contains example_wm 5" by (simp add: example_facts)
  have ns: "\<not> skipped example_wm 5 False" by (simp add: skipped_def)
  show "clients (Frame example_wm 5 False) = [(5, 100)]"
    by (simp add: Frame_clients [OF nc ns] example_facts)
  show "next_id (display (Frame example_wm 5 False)) = 101"
    by (simp add: Frame_next_id [OF nc ns] example_facts)
  show "\<not> Contains (Frame example_wm 5 False) 6"
    by (simp add: Contains_Frame example_facts)
  show "windows (display (Frame example_wm 5 False)) 6 = windows (display example_wm) 6"
    by (rule Frame_other_window [OF nc ns]) (simp_all add: example_facts)
  show "get_geometry (display (Frame example_wm 5 False)) 100 =
     \<lparr>geo_x = 10, geo_y = 10, geo_width = 100, geo_height = 50, geo_border_width = 3\<rparr>"
    using Frame_frame_geometry [OF nc ns]
    by (simp add: example_facts BORDER_WIDTH_def)
       (simp add: example_wm_def init_def example_display_def)
qed

lemma example_framed_facts:
  "clients example_framed = [(5, 100), (6, 101)]"
  "root example_framed = 1"
  "get_geometry (display example_framed) 100 =
     \<lparr>geo_x = 10, geo_y = 10, geo_width = 100, geo_height = 50, geo_border_width = 3\<rparr>"
  "get_geometry (display example_framed) 101 =
     \<lparr>geo_x = 10, geo_y = 10, geo_width = 100, geo_height = 50, geo_border_width = 3\<rparr>"
  "drag_start_pos example_framed = None"
  "keycodes (display example_framed) XK_Tab = 23"
  "keycodes (display example_framed) XK_F4 = 70"
proof -
  have ns: "\<not> skipped (Frame example_wm 5 False) 6 False" by (simp add: skipped_def)
  note one = example_one_facts
  show "clients example_framed = [(5, 100), (6, 101)]"
    by (simp add: example_framed_def Frame_clients [OF one(3) ns] one)
  show "root example_framed = 1"
    by (simp add: example_framed_def example_facts)
  show "get_geometry (display example_framed) 100 =
     \<lparr>geo_x = 10, geo_y = 10, geo_width = 100, geo_height = 50, geo_border_width = 3\<rparr>"
    using Frame_other_window [OF one(3) ns, of 100] one(5)
    by (simp add: example_framed_def get_geometry_def one(2))
  show "get_geometry (display example_framed) 101 =
     \<lparr>geo_x = 10, geo_y = 10, geo_width = 100, geo_height = 50, geo_border_width = 3\<rparr>"
    using Frame_frame_geometry [OF one(3) ns]
    by (simp add: example_framed_def one BORDER_WIDTH_def)
       (simp add: example_wm_def init_def example_display_def)
  show "drag_start_pos example_framed = None"
    by (simp add: example_framed_def example_wm_def init_def)
  show "keycodes (display example_framed) XK_Tab = 23"
    by (simp add: example_framed_def example_wm_def init_def example_display_def XK_Tab_def XK_F4_def)
  show "keycodes (display example_framed) XK_F4 = 70"
    by (simp add: example_framed_def example_wm_def init_def example_display_def XK_Tab_def XK_F4_def)
qed



lemma configure_stack_only [simp]:
  "configure_geometry (no_values\<lparr>cfg_stack_mode := v\<rparr>) g = g"
  by (simp add: configure_geometry_def no_values_def)

lemma get_geometry_configure:
  "get_geometry (request (ConfigureWindow w c) d) v =
     (if v = w then configure_geometry c (get_geometry d w) else get_geometry d v)"
  by (simp add: get_geometry_def request_def upd_window_def)

lemma OnButtonPress_framed:
  assumes "map_of (clients s) (ev_window e) = Some frame"
  shows "drag_start_pos (OnButtonPress s e) = Some (ev_x_root e, ev_y_root e)"
    "drag_start_frame_pos (OnButtonPress s e) =
       Some (geo_x (get_geometry (display s) frame), geo_y (get_geometry (display s) frame))"
    "drag_start_frame_size (OnButtonPress s e) =
       Some (geo_width (get_geometry (display s) frame),
             geo_height (get_geometry (display s) frame))"
    "clients (OnButtonPress s e) = clients s"
    "get_geometry (display (OnButtonPress s e)) v = get_geometry (display s) v"
    "requests (display (OnButtonPress s e)) =
       requests (display s) @ [ConfigureWindow frame (no_values\<lparr>cfg_stack_mode := Some Above\<rparr>)]"
  using assms by (simp_all add: OnButtonPress_def Let_def get_geometry_configure)

lemma example_dragging_facts:
  "clients example_dragging = [(5, 100), (6, 101)]"
  "drag_start_pos example_dragging = Some (0, 0)"
  "drag_start_frame_pos example_dragging = Some (10, 10)"
  "drag_start_frame_size example_dragging = Some (100, 50)"
  "get_geometry (display example_dragging) 100 =
     \<lparr>geo_x = 10, geo_y = 10, geo_width = 100, geo_height = 50, geo_border_width = 3\<rparr>"
  "get_geometry (display example_dragging) 101 =
     \<lparr>geo_x = 10, geo_y = 10, geo_width = 100, geo_height = 50, geo_border_width = 3\<rparr>"
proof -
  have f: "map_of (clients example_framed) (ev_window example_press) = Some 100"
    by (simp add: example_framed_facts example_press_def)
  note p = OnButtonPress_framed [OF f]
  show "clients example_dragging = [(5, 100), (6, 101)]"
    by (simp add: example_dragging_def p example_framed_facts)
  show "drag_start_pos example_dragging = Some (0, 0)"
    by (simp add: example_dragging_def p) (simp add: example_press_def)
  show "drag_start_frame_pos example_dragging = Some (10, 10)"
    by (simp add: example_dragging_def p example_framed_facts)
  show "drag_start_frame_size example_dragging = Some (100, 50)"
    by (simp add: example_dragging_def p example_framed_facts)
  show "get_geometry (display example_dragging) 100 =
     \<lparr>geo_x = 10, geo_y = 10, geo_width = 100, geo_height = 50, geo_border_width = 3\<rparr>"
    by (simp add: example_dragging_def p example_framed_facts)
  show "get_geometry (display example_dragging) 101 =
     \<lparr>geo_x = 10, geo_y = 10, geo_width = 100, geo_height = 50, geo_border_width = 3\<rparr>"
    by (simp add: example_dragging_def p example_framed_facts)
qed





















text \<open>
  C5. What the dispatcher does on a \<open>MotionNotify\<close>: a queued \<open>MotionNotify\<close> replaces
  the current event whatever its window, and a queued event of another kind is taken off
  the queue and handed to \<open>OnMotionNotify\<close>, which ignores it when its window is not
  registered, so the event is lost and the motion itself is never handled.
\<close>

theorem dispatch_motion_drains_any_event:
  "dispatch s (MotionNotify p) (MotionNotify p' # q) = dispatch s (MotionNotify p') q \<and>
   (\<not> is_motion e \<and> event_window e = Some w \<and> \<not> Contains s w \<longrightarrow>
      dispatch s (MotionNotify p) (e # q) = Inr (s, q)) \<and>
   dispatch s (MotionNotify p) [] =
     (case OnMotionNotify s (MotionNotify p) of Inl err \<Rightarrow> Inl err | Inr s' \<Rightarrow> Inr (s', []))"
proof -
  have 1: "dispatch s (MotionNotify p) (MotionNotify p' # q) = dispatch s (MotionNotify p') q"
    by (simp add: dispatch_def)
  have 2: "dispatch s (MotionNotify p) (e # q) = Inr (s, q)"
    if "\<not> is_motion e" "event_window e = Some w" "\<not> Contains s w"
    using that by (simp add: dispatch_def OnMotionNotify_def Contains_def)
  have 3: "dispatch s (MotionNotify p) [] =
     (case OnMotionNotify s (MotionNotify p) of Inl err \<Rightarrow> Inl err | Inr s' \<Rightarrow> Inr (s', []))"
    by (simp add: dispatch_def)
  from 1 2 3 show ?thesis by blast
qed

theorem dispatch_motion_drains_any_event_witness:
  "dispatch example_dragging (MotionNotify (example_move 5))
     [MapRequest 9, KeyPress (example_tab 5)] =
     Inr (example_dragging, [KeyPress (example_tab 5)]) \<and>
   dispatch example_dragging (MotionNotify (example_move 5)) [MotionNotify (example_move 6)] =
     dispatch example_dragging (MotionNotify (example_move 6)) []"
  using dispatch_motion_drains_any_event
      [of example_dragging "example_move 5" "example_move 6" "[]" "MapRequest 9" 9]
    dispatch_motion_drains_any_event
      [of example_dragging "example_move 5" "example_move 6" "[KeyPress (example_tab 5)]"
        "MapRequest 9" 9]
  by (simp add: Contains_def example_dragging_facts)

end
